theory Spec2Isabelle
  imports Complex_Main
begin

section \<open>Data model\<close>

text \<open>
  The search engine of \<^verbatim>\<open>lyapunov_attractors\<close>. Python floats are read as real
  numbers: comparisons, \<^verbatim>\<open>math.sqrt\<close> and \<^verbatim>\<open>math.log\<close> are the exact ones, and
  rounding, overflow to infinity and NaN are outside the model. Python integers are
  \<^typ>\<open>int\<close>. Every exception the modelled code can raise is a value of
  \<open>pyerror\<close>, returned on the left of a sum.
\<close>

datatype pyerror =
  TypeError | ValueError | ZeroDivisionError | IndexError | AttributeError | OSError

text \<open>
  A Lyapunov exponent as the code produces it: \<^verbatim>\<open>float('-inf')\<close>, the
  "non-chaotic" sentinel, or a finite number. The order is the one of Python floats.
\<close>

datatype exponent = NegInf | Fin real

instantiation exponent :: linorder
begin

fun less_eq_exponent :: "exponent \<Rightarrow> exponent \<Rightarrow> bool" where
  "less_eq_exponent NegInf b = True"
| "less_eq_exponent (Fin x) NegInf = False"
| "less_eq_exponent (Fin x) (Fin y) = (x \<le> y)"

definition less_exponent :: "exponent \<Rightarrow> exponent \<Rightarrow> bool" where
  "less_exponent a b = (a \<le> b \<and> \<not> b \<le> a)"

instance
proof
  fix a b c :: exponent
  show "(a < b) = (a \<le> b \<and> \<not> b \<le> a)"
    by (simp add: less_exponent_def)
  show "a \<le> a"
    by (cases a) simp_all
  show "a \<le> b \<Longrightarrow> b \<le> c \<Longrightarrow> a \<le> c"
    by (cases a; cases b; cases c) simp_all
  show "a \<le> b \<Longrightarrow> b \<le> a \<Longrightarrow> a = b"
    by (cases a; cases b) simp_all
  show "a \<le> b \<or> b \<le> a"
    by (cases a; cases b) auto
qed

end

text \<open>\<^verbatim>\<open>models.py\<close>: the three named tuples.\<close>

record LyapConfig =
  transient_skip_steps :: int
  initial_distance :: real
  renorm_steps :: int
  convergence_threshold :: real
  extreme_threshold :: real
  lyapunov_threshold :: real

text \<open>The fields \<^verbatim>\<open>MIN\<close> and \<^verbatim>\<open>MAX\<close> of \<^verbatim>\<open>DensityConstraints\<close>.\<close>

record DensityConstraints =
  density_MIN :: real
  density_MAX :: real

record ChaoticSysFinderConfig =
  dimensions :: int
  param_count :: int
  iterations :: int
  max_systems :: int
  coefficient_limit :: real
  max_attempts :: int
  output_path :: string
  density_constraints :: DensityConstraints
  lyap_config :: LyapConfig

text \<open>
  \<^verbatim>\<open>attractor_system.py\<close>. The fields \<^verbatim>\<open>dimensions\<close>, \<^verbatim>\<open>param_count\<close> and
  \<^verbatim>\<open>iterations\<close> carry the prefix \<open>sys_\<close>, the configuration having fields of
  the same names.
\<close>

record AttractorSystem =
  sys_dimensions :: int
  sys_param_count :: int
  sys_iterations :: int
  coefficients :: "real list"
  lyapunov :: exponent
  points :: "real list list"
  timestamp :: string

text \<open>
  The attributes \<^verbatim>\<open>TrajectorySimulator.__init__\<close> and
  \<^verbatim>\<open>LyapunovCalculator.__init__\<close> set on \<^verbatim>\<open>self\<close>, with the prefixes \<open>sim_\<close>
  and \<open>calc_\<close>.
\<close>

record TrajectorySimulator =
  sim_config :: ChaoticSysFinderConfig
  sim_dimensions :: int
  sim_iterations :: int
  sim_param_max :: real
  sim_min_density :: real
  sim_max_density :: real
  sim_convergence_threshold :: real
  sim_extreme_threshold :: real
  sim_lyap_norm_dist :: real
  sim_lyap_renorm_steps :: int

record LyapunovCalculator =
  calc_lyap_skip_steps :: int
  calc_lyap_norm_dist :: real
  calc_lyap_renorm_steps :: int
  calc_extreme_threshold :: real

section \<open>Python helpers\<close>

text \<open>Float division: \<^verbatim>\<open>a / b\<close> raises when \<^verbatim>\<open>b\<close> is zero.\<close>

definition py_div :: "real \<Rightarrow> real \<Rightarrow> pyerror + real" where
  "py_div a b = (if b = 0 then Inl ZeroDivisionError else Inr (a / b))"

text \<open>A list comprehension whose element expression may raise: the first error wins.\<close>

fun comprehension :: "('a \<Rightarrow> pyerror + 'b) \<Rightarrow> 'a list \<Rightarrow> pyerror + 'b list" where
  "comprehension f [] = Inr []"
| "comprehension f (x # xs) =
     (case f x of
        Inl e \<Rightarrow> Inl e
      | Inr y \<Rightarrow> (case comprehension f xs of Inl e \<Rightarrow> Inl e | Inr ys \<Rightarrow> Inr (y # ys)))"

text \<open>
  \<^verbatim>\<open>xs[i]\<close> for a list of length \<open>n\<close>: the indices \<open>0 .. n - 1\<close> read from the
  front, the indices \<open>- n .. - 1\<close> from the back, any other raises.
\<close>

definition py_index :: "'a list \<Rightarrow> int \<Rightarrow> pyerror + 'a" where
  "py_index xs i =
     (if 0 \<le> i \<and> i < int (length xs) then Inr (xs ! nat i)
      else if - int (length xs) \<le> i \<and> i < 0 then Inr (xs ! nat (int (length xs) + i))
      else Inl IndexError)"

text \<open>\<^verbatim>\<open>math.sqrt(sum(x * x for x in point))\<close>, as the simulator writes it three times.\<close>

definition magnitude :: "real list \<Rightarrow> real" where
  "magnitude point = sqrt (sum_list (map (\<lambda>x. x * x) point))"

text \<open>
  The generator behind \<^verbatim>\<open>random\<close>: the sequence of values the coming calls of
  \<^verbatim>\<open>random.random()\<close> return, each in \<open>[0, 1)\<close>. \<^verbatim>\<open>random.uniform(a, b)\<close> is
  \<^verbatim>\<open>a + (b - a) * random()\<close>.
\<close>

type_synonym rng = "nat \<Rightarrow> real"

definition rng_ok :: "rng \<Rightarrow> bool" where
  "rng_ok r = (\<forall>k. 0 \<le> r k \<and> r k < 1)"

definition uniform :: "real \<Rightarrow> real \<Rightarrow> real \<Rightarrow> real" where
  "uniform a b u = a + (b - a) * u"

definition draws :: "nat \<Rightarrow> rng \<Rightarrow> real list \<times> rng" where
  "draws n r = (map r [0..<n], (\<lambda>k. r (k + n)))"

section \<open>TrajectorySimulator\<close>

text \<open>
  \<^verbatim>\<open>TrajectorySimulator.__init__(self, config)\<close>. The coefficient bound
  \<^verbatim>\<open>self.param_max\<close> is read from \<^verbatim>\<open>config.max_systems\<close>.
\<close>

definition new_TrajectorySimulator :: "ChaoticSysFinderConfig \<Rightarrow> TrajectorySimulator" where
  "new_TrajectorySimulator config =
     \<lparr> sim_config = config,
       sim_dimensions = dimensions config,
       sim_iterations = iterations config,
       sim_param_max = real_of_int (max_systems config),
       sim_min_density = density_MIN (density_constraints config),
       sim_max_density = density_MAX (density_constraints config),
       sim_convergence_threshold = convergence_threshold (lyap_config config),
       sim_extreme_threshold = extreme_threshold (lyap_config config),
       sim_lyap_norm_dist = initial_distance (lyap_config config),
       sim_lyap_renorm_steps = renorm_steps (lyap_config config) \<rparr>"

text \<open>\<^verbatim>\<open>normalize_point\<close>: the clamp of a point to the density bound.\<close>

definition normalize_point :: "TrajectorySimulator \<Rightarrow> real list \<Rightarrow> pyerror + real list" where
  "normalize_point sim point =
     (if magnitude point > sim_max_density sim
      then comprehension (\<lambda>x. py_div (x * sim_max_density sim) (magnitude point)) point
      else Inr point)"

text \<open>\<^verbatim>\<open>check_convergence\<close>: both comparisons are strict.\<close>

definition check_convergence :: "TrajectorySimulator \<Rightarrow> real list \<Rightarrow> bool" where
  "check_convergence sim point =
     (magnitude point > sim_extreme_threshold sim \<or>
      magnitude point < sim_convergence_threshold sim)"

text \<open>
  \<^verbatim>\<open>create_random_points\<close>: a point in the density range and a second one at the
  distance \<^verbatim>\<open>lyap_norm_dist\<close> from it, in a sampled direction. The comprehension
  divides by the direction's magnitude once for every coordinate.
\<close>

definition create_random_points ::
  "TrajectorySimulator \<Rightarrow> rng \<Rightarrow> pyerror + (real list \<times> real list) \<times> rng" where
  "create_random_points sim r =
     (let (us, r1) = draws (nat (sim_dimensions sim)) r;
          point = map (uniform (sim_min_density sim / 2) (sim_max_density sim / 2)) us;
          (vs, r2) = draws (nat (sim_dimensions sim)) r1;
          random_direction = map (uniform (- 1) 1) vs
      in case comprehension
                (\<lambda>(p, d).
                   case py_div (d * sim_lyap_norm_dist sim) (magnitude random_direction) of
                     Inl e \<Rightarrow> Inl e
                   | Inr q \<Rightarrow> Inr (p + q))
                (zip point random_direction) of
           Inl e \<Rightarrow> Inl e
         | Inr perturbed \<Rightarrow> Inr ((point, perturbed), r2))"

text \<open>\<^verbatim>\<open>generate_polynomial_coefficients\<close>; \<^verbatim>\<open>//\<close> is floor division.\<close>

definition coeffs_per_dim :: "int \<Rightarrow> int" where
  "coeffs_per_dim d = 1 + d + (d * (d + 1)) div 2"

definition generate_polynomial_coefficients :: "TrajectorySimulator \<Rightarrow> rng \<Rightarrow> real list \<times> rng" where
  "generate_polynomial_coefficients sim r =
     (let total_params = coeffs_per_dim (sim_dimensions sim) * sim_dimensions sim;
          (us, r1) = draws (nat total_params) r
      in (map (uniform (- sim_param_max sim / 2) (sim_param_max sim / 2)) us, r1))"

text \<open>
  \<^verbatim>\<open>compute_polynomial_terms\<close>. The two loops carry \<^verbatim>\<open>(current_idx, result)\<close>; a
  coordinate of the point that does not exist raises \<^verbatim>\<open>IndexError\<close>, which the
  \<^verbatim>\<open>except OverflowError\<close> clause does not catch. Over the reals nothing overflows.
\<close>

fun linear_terms ::
  "real list \<Rightarrow> real list \<Rightarrow> nat list \<Rightarrow> nat \<times> real \<Rightarrow> pyerror + nat \<times> real" where
  "linear_terms dim_coeffs point [] st = Inr st"
| "linear_terms dim_coeffs point (i # rest) (current_idx, result) =
     (if current_idx < length dim_coeffs
      then (if i < length point
            then linear_terms dim_coeffs point rest
                   (current_idx + 1, result + dim_coeffs ! current_idx * point ! i * (1 / 2))
            else Inl IndexError)
      else linear_terms dim_coeffs point rest (current_idx, result))"

fun quadratic_terms ::
  "real list \<Rightarrow> real list \<Rightarrow> (nat \<times> nat) list \<Rightarrow> nat \<times> real \<Rightarrow> pyerror + nat \<times> real" where
  "quadratic_terms dim_coeffs point [] st = Inr st"
| "quadratic_terms dim_coeffs point ((i, j) # rest) (current_idx, result) =
     (if current_idx < length dim_coeffs
      then (if i < length point \<and> j < length point
            then quadratic_terms dim_coeffs point rest
                   (current_idx + 1,
                    result + dim_coeffs ! current_idx * point ! i * point ! j * (1 / 4))
            else Inl IndexError)
      else quadratic_terms dim_coeffs point rest (current_idx, result))"

text \<open>\<^verbatim>\<open>itertools.combinations_with_replacement(range(d), 2)\<close>.\<close>

definition combinations_with_replacement :: "nat \<Rightarrow> (nat \<times> nat) list" where
  "combinations_with_replacement d = concat (map (\<lambda>i. map (\<lambda>j. (i, j)) [i..<d]) [0..<d])"

definition compute_polynomial_terms ::
  "TrajectorySimulator \<Rightarrow> real list \<Rightarrow> real list \<Rightarrow> pyerror + real" where
  "compute_polynomial_terms sim point dim_coeffs =
     (case dim_coeffs of
        [] \<Rightarrow> Inl IndexError
      | c # _ \<Rightarrow>
          (case linear_terms dim_coeffs point [0..<nat (sim_dimensions sim)] (1, c * (1 / 10)) of
             Inl e \<Rightarrow> Inl e
           | Inr st \<Rightarrow>
               (case quadratic_terms dim_coeffs point
                       (combinations_with_replacement (nat (sim_dimensions sim))) st of
                  Inl e \<Rightarrow> Inl e
                | Inr (current_idx, result) \<Rightarrow> Inr result)))"

text \<open>
  \<^verbatim>\<open>calculate_new_point\<close>. \<^verbatim>\<open>len(coefficients) // self.dimensions\<close> raises when
  the dimension is zero; the loop runs only for a positive dimension, where the
  bounds of every slice are non-negative.
\<close>

definition calculate_new_point ::
  "TrajectorySimulator \<Rightarrow> real list \<Rightarrow> real list \<Rightarrow> pyerror + real list" where
  "calculate_new_point sim point coeffs =
     (if sim_dimensions sim = 0 then Inl ZeroDivisionError
      else
        let per_dim = int (length coeffs) div sim_dimensions sim
        in case comprehension
                  (\<lambda>dim. compute_polynomial_terms sim point
                            (take (nat per_dim) (drop (dim * nat per_dim) coeffs)))
                  [0..<nat (sim_dimensions sim)] of
             Inl e \<Rightarrow> Inl e
           | Inr new_point \<Rightarrow> normalize_point sim new_point)"

text \<open>
  \<^verbatim>\<open>simulate\<close>. The loop either returns from inside or runs to its end; the state
  it carries is \<^verbatim>\<open>(point, perturbed, reference_traj, perturbed_traj)\<close>.
\<close>

type_synonym sim_state = "real list \<times> real list \<times> real list list \<times> real list list"

datatype loop_result =
  Returned "exponent \<times> real list \<times> real list list"
| Completed sim_state

definition renormalize :: "TrajectorySimulator \<Rightarrow> real list \<Rightarrow> real list \<Rightarrow> real list" where
  "renormalize sim new_point new_perturbed =
     (let separation = map (\<lambda>(p, r). p - r) (zip new_perturbed new_point);
          separation_dist = magnitude separation
      in if separation_dist > 0
         then (let scale = sim_lyap_norm_dist sim / separation_dist
               in map (\<lambda>(r, s). r + s * scale) (zip new_point separation))
         else new_perturbed)"

fun simulate_loop ::
  "TrajectorySimulator \<Rightarrow> real list \<Rightarrow> int list \<Rightarrow> sim_state \<Rightarrow> pyerror + loop_result" where
  "simulate_loop sim coeffs [] st = Inr (Completed st)"
| "simulate_loop sim coeffs (iteration # rest) (point, perturbed, reference_traj, perturbed_traj) =
     (case calculate_new_point sim point coeffs of
        Inl e \<Rightarrow> Inl e
      | Inr new_point \<Rightarrow>
          if check_convergence sim new_point
          then Inr (Returned (NegInf, coeffs, reference_traj))
          else
            (case calculate_new_point sim perturbed coeffs of
               Inl e \<Rightarrow> Inl e
             | Inr new_perturbed \<Rightarrow>
                 if check_convergence sim new_perturbed
                 then Inr (Returned (NegInf, coeffs, reference_traj @ [new_point]))
                 else if sim_lyap_renorm_steps sim = 0 then Inl ZeroDivisionError
                 else
                   (let new_perturbed' =
                          (if iteration mod sim_lyap_renorm_steps sim = 0 \<and> iteration > 0
                           then renormalize sim new_point new_perturbed
                           else new_perturbed)
                    in simulate_loop sim coeffs rest
                         (new_point, new_perturbed',
                          reference_traj @ [new_point], perturbed_traj @ [new_perturbed']))))"

definition simulate ::
  "TrajectorySimulator \<Rightarrow> rng \<Rightarrow> pyerror + (exponent \<times> real list \<times> real list list) \<times> rng" where
  "simulate sim r =
     (case create_random_points sim r of
        Inl e \<Rightarrow> Inl e
      | Inr ((point, perturbed), r1) \<Rightarrow>
          (let (coeffs, r2) = generate_polynomial_coefficients sim r1
           in case simulate_loop sim coeffs [0..sim_iterations sim - 1]
                     (point, perturbed, [], []) of
                Inl e \<Rightarrow> Inl e
              | Inr (Returned res) \<Rightarrow> Inr (res, r2)
              | Inr (Completed (point', perturbed', reference_traj, perturbed_traj)) \<Rightarrow>
                  Inr ((NegInf, coeffs, reference_traj), r2)))"

section \<open>LyapunovCalculator\<close>

definition new_LyapunovCalculator :: "LyapConfig \<Rightarrow> LyapunovCalculator" where
  "new_LyapunovCalculator lc =
     \<lparr> calc_lyap_skip_steps = transient_skip_steps lc,
       calc_lyap_norm_dist = initial_distance lc,
       calc_lyap_renorm_steps = renorm_steps lc,
       calc_extreme_threshold = extreme_threshold lc \<rparr>"

text \<open>
  \<^verbatim>\<open>math.log(a / b)\<close>: the division raises for a zero divisor, the logarithm for
  an argument that is not positive.
\<close>

definition py_log_ratio :: "real \<Rightarrow> real \<Rightarrow> pyerror + real" where
  "py_log_ratio a b =
     (if b = 0 then Inl ZeroDivisionError
      else if a / b \<le> 0 then Inl ValueError
      else Inr (ln (a / b)))"

text \<open>The separation of two points, over the coordinates \<^verbatim>\<open>zip\<close> pairs up.\<close>

definition separation_of :: "real list \<Rightarrow> real list \<Rightarrow> real" where
  "separation_of ref_point pert_point =
     sqrt (sum_list (map (\<lambda>(r, p). (r - p) ^ 2) (zip ref_point pert_point)))"

text \<open>The loop of \<^verbatim>\<open>calculate\<close>, carrying \<^verbatim>\<open>(lyap_sum, valid_points)\<close>.\<close>

fun calculate_loop ::
  "LyapunovCalculator \<Rightarrow> real list list \<Rightarrow> real list list \<Rightarrow> int list \<Rightarrow> real \<times> int \<Rightarrow>
   pyerror + real \<times> int" where
  "calculate_loop calc reference_traj perturbed_traj [] acc = Inr acc"
| "calculate_loop calc reference_traj perturbed_traj (i # rest) (lyap_sum, valid_points) =
     (case py_index reference_traj i of
        Inl e \<Rightarrow> Inl e
      | Inr ref_point \<Rightarrow>
          (case py_index perturbed_traj i of
             Inl e \<Rightarrow> Inl e
           | Inr pert_point \<Rightarrow>
               (let separation = separation_of ref_point pert_point
                in if separation > 0 \<and> separation < calc_extreme_threshold calc
                   then (case py_log_ratio separation (calc_lyap_norm_dist calc) of
                           Inl e \<Rightarrow> Inl e
                         | Inr l \<Rightarrow>
                             calculate_loop calc reference_traj perturbed_traj rest
                               (lyap_sum + l, valid_points + 1))
                   else calculate_loop calc reference_traj perturbed_traj rest
                          (lyap_sum, valid_points))))"

definition calculate ::
  "LyapunovCalculator \<Rightarrow> real list list \<Rightarrow> real list list \<Rightarrow> pyerror + exponent" where
  "calculate calc reference_traj perturbed_traj =
     (let num_points = int (length reference_traj);
          start_idx = min (calc_lyap_skip_steps calc) (num_points div 4)
      in case calculate_loop calc reference_traj perturbed_traj [start_idx..num_points - 1]
                (0, 0) of
           Inl e \<Rightarrow> Inl e
         | Inr (lyap_sum, valid_points) \<Rightarrow>
             if valid_points = 0 then Inr NegInf
             else if valid_points * calc_lyap_renorm_steps calc = 0 then Inl ZeroDivisionError
             else Inr (Fin (lyap_sum / real_of_int (valid_points * calc_lyap_renorm_steps calc))))"

section \<open>Configuration values\<close>

text \<open>
  The named tuples are built with \<^verbatim>\<open>namedtuple(..., defaults=[...])\<close>: every field
  may be left out and then takes its default, and a field that is given is stored as
  it is. The constructors hold no check, so no input makes them raise.
\<close>

definition or_default :: "'a \<Rightarrow> 'a option \<Rightarrow> 'a" where
  "or_default d v = (case v of None \<Rightarrow> d | Some x \<Rightarrow> x)"

definition new_LyapConfig ::
  "int option \<Rightarrow> real option \<Rightarrow> int option \<Rightarrow> real option \<Rightarrow> real option \<Rightarrow> real option \<Rightarrow>
   pyerror + LyapConfig" where
  "new_LyapConfig skip_arg dist_arg renorm_arg conv_arg extreme_arg threshold_arg =
     Inr \<lparr> transient_skip_steps = or_default 100 skip_arg,
           initial_distance = or_default (1 / 10 ^ 8) dist_arg,
           renorm_steps = or_default 10 renorm_arg,
           convergence_threshold = or_default (1 / 10 ^ 10) conv_arg,
           extreme_threshold = or_default (10 ^ 10) extreme_arg,
           lyapunov_threshold = or_default (5 / 100) threshold_arg \<rparr>"

definition new_DensityConstraints :: "real option \<Rightarrow> real option \<Rightarrow> pyerror + DensityConstraints" where
  "new_DensityConstraints lo hi =
     Inr \<lparr> density_MIN = or_default (- 5) lo, density_MAX = or_default 5 hi \<rparr>"

definition default_LyapConfig :: LyapConfig where
  "default_LyapConfig =
     \<lparr> transient_skip_steps = 100, initial_distance = 1 / 10 ^ 8, renorm_steps = 10,
       convergence_threshold = 1 / 10 ^ 10, extreme_threshold = 10 ^ 10,
       lyapunov_threshold = 5 / 100 \<rparr>"

definition default_DensityConstraints :: DensityConstraints where
  "default_DensityConstraints = \<lparr> density_MIN = - 5, density_MAX = 5 \<rparr>"

definition new_ChaoticSysFinderConfig ::
  "int option \<Rightarrow> int option \<Rightarrow> int option \<Rightarrow> int option \<Rightarrow> real option \<Rightarrow> int option \<Rightarrow>
   string option \<Rightarrow> DensityConstraints option \<Rightarrow> LyapConfig option \<Rightarrow>
   pyerror + ChaoticSysFinderConfig" where
  "new_ChaoticSysFinderConfig dims params iters systems limit attempts path density lyap =
     Inr \<lparr> dimensions = or_default 3 dims,
           param_count = or_default 12 params,
           iterations = or_default 2000 iters,
           max_systems = or_default 10 systems,
           coefficient_limit = or_default (25 / 10) limit,
           max_attempts = or_default 9000 attempts,
           output_path = or_default ''./best_attractors'' path,
           density_constraints = or_default default_DensityConstraints density,
           lyap_config = or_default default_LyapConfig lyap \<rparr>"

definition default_config :: ChaoticSysFinderConfig where
  "default_config =
     \<lparr> dimensions = 3, param_count = 12, iterations = 2000, max_systems = 10,
       coefficient_limit = 25 / 10, max_attempts = 9000,
       output_path = ''./best_attractors'',
       density_constraints = default_DensityConstraints,
       lyap_config = default_LyapConfig \<rparr>"

section \<open>ChaoticSystemFinder\<close>

text \<open>
  What the constructor meets outside the program: whether
  \<^verbatim>\<open>Path(p).mkdir(exist_ok=True)\<close> raises for a path, and what reading
  \<^verbatim>\<open>systems.json\<close> under it gives (\<open>None\<close>: no such file).
\<close>

record environment =
  mkdir :: "string \<Rightarrow> pyerror option"
  read_systems :: "string \<Rightarrow> (pyerror + AttractorSystem list) option"

record StorageManager =
  storage_path :: string
  systems_file :: string

definition new_StorageManager :: "environment \<Rightarrow> string \<Rightarrow> pyerror + StorageManager" where
  "new_StorageManager env path =
     (case mkdir env path of
        Some e \<Rightarrow> Inl e
      | None \<Rightarrow> Inr \<lparr> storage_path = path, systems_file = path @ ''/systems.json'' \<rparr>)"

definition load_systems :: "environment \<Rightarrow> StorageManager \<Rightarrow> pyerror + AttractorSystem list" where
  "load_systems env sm =
     (case read_systems env (systems_file sm) of None \<Rightarrow> Inr [] | Some res \<Rightarrow> res)"

text \<open>
  A call \<^verbatim>\<open>TrajectorySimulator(a1, ..., an)\<close> with positional arguments. Python
  binds them to the parameters that follow \<^verbatim>\<open>self\<close>, here \<^verbatim>\<open>config\<close> alone, and
  raises \<^verbatim>\<open>TypeError\<close> before the body runs when their number differs. The body
  reads attributes of \<^verbatim>\<open>config\<close>, which only a configuration has.
\<close>

datatype pyarg = ArgNone | ArgConfig ChaoticSysFinderConfig | ArgCalculator LyapunovCalculator

fun call_TrajectorySimulator :: "pyarg list \<Rightarrow> pyerror + TrajectorySimulator" where
  "call_TrajectorySimulator [ArgConfig cfg] = Inr (new_TrajectorySimulator cfg)"
| "call_TrajectorySimulator [a] = Inl AttributeError"
| "call_TrajectorySimulator args = Inl TypeError"

record ChaoticSystemFinder =
  finder_config :: ChaoticSysFinderConfig
  finder_lyap_config :: LyapConfig
  storage_manager :: StorageManager
  lyap_calculator :: LyapunovCalculator
  simulator :: TrajectorySimulator
  visualizer :: string
  best_systems :: "AttractorSystem list"

text \<open>
  \<^verbatim>\<open>ChaoticSystemFinder.__init__(self, config=None)\<close>, statement by statement. The
  simulator is called with \<^verbatim>\<open>config\<close> as it was passed, not with
  \<^verbatim>\<open>self.config\<close>, and with the calculator as a second argument.
\<close>

definition new_ChaoticSystemFinder ::
  "environment \<Rightarrow> ChaoticSysFinderConfig option \<Rightarrow> pyerror + ChaoticSystemFinder" where
  "new_ChaoticSystemFinder env config_arg =
     (let cfg = or_default default_config config_arg
      in case new_StorageManager env (output_path cfg) of
           Inl e \<Rightarrow> Inl e
         | Inr sm \<Rightarrow>
             (let calc = new_LyapunovCalculator (lyap_config cfg)
              in case call_TrajectorySimulator
                        [case config_arg of None \<Rightarrow> ArgNone | Some c \<Rightarrow> ArgConfig c,
                         ArgCalculator calc] of
                   Inl e \<Rightarrow> Inl e
                 | Inr sim \<Rightarrow>
                     (case load_systems env sm of
                        Inl e \<Rightarrow> Inl e
                      | Inr loaded \<Rightarrow>
                          Inr \<lparr> finder_config = cfg,
                                finder_lyap_config = lyap_config cfg,
                                storage_manager = sm,
                                lyap_calculator = calc,
                                simulator = sim,
                                visualizer = ''./best_attractors'',
                                best_systems = loaded \<rparr>)))"

text \<open>\<^verbatim>\<open>min\<close> of an iterable raises \<^verbatim>\<open>ValueError\<close> when it is empty.\<close>

definition py_min :: "'a::linorder list \<Rightarrow> pyerror + 'a" where
  "py_min xs = (case xs of [] \<Rightarrow> Inl ValueError | x # rest \<Rightarrow> Inr (fold min rest x))"

definition is_system_worthy :: "ChaoticSystemFinder \<Rightarrow> exponent \<Rightarrow> pyerror + bool" where
  "is_system_worthy self lyap =
     (if lyap < Fin (lyapunov_threshold (finder_lyap_config self)) then Inr False
      else if int (length (best_systems self)) < max_systems (finder_config self) then Inr True
      else (case py_min (map lyapunov (best_systems self)) of
              Inl e \<Rightarrow> Inl e
            | Inr lowest \<Rightarrow> Inr (lyap > lowest)))"

text \<open>
  \<^verbatim>\<open>list.sort(key=..., reverse=True)\<close> is stable: members with equal keys keep
  their order. \<^const>\<open>sort_key\<close> is a stable insertion sort, ascending.
\<close>

definition sort_descending :: "AttractorSystem list \<Rightarrow> AttractorSystem list" where
  "sort_descending xs = rev (sort_key lyapunov (rev xs))"

text \<open>
  \<^verbatim>\<open>add_system\<close>. The time stamp is the clock's reading, an input. The calls of
  the storage manager and the visualizer come after the list is updated; they are
  returned as the events the call emits.
\<close>

datatype io_event = SaveSystems "AttractorSystem list" | PlotSystem AttractorSystem

text \<open>The \<^verbatim>\<open>AttractorSystem\<close> that \<^verbatim>\<open>add_system\<close> constructs.\<close>

definition candidate :: "ChaoticSystemFinder \<Rightarrow> string \<Rightarrow> real list \<Rightarrow> exponent \<Rightarrow> real list list \<Rightarrow> AttractorSystem" where
  "candidate self now coeffs lyap pts =
     \<lparr> sys_dimensions = dimensions (finder_config self),
       sys_param_count = param_count (finder_config self),
       sys_iterations = iterations (finder_config self),
       coefficients = coeffs, lyapunov = lyap, points = pts, timestamp = now \<rparr>"

definition add_system ::
  "ChaoticSystemFinder \<Rightarrow> string \<Rightarrow> real list \<Rightarrow> exponent \<Rightarrow> real list list \<Rightarrow>
   pyerror + ChaoticSystemFinder \<times> io_event list" where
  "add_system self now coeffs lyap pts =
     (case is_system_worthy self lyap of
        Inl e \<Rightarrow> Inl e
      | Inr worthy \<Rightarrow>
          if \<not> worthy then Inr (self, [])
          else
            (let new_system = candidate self now coeffs lyap pts;
                 ranked = sort_descending (best_systems self @ [new_system]);
                 kept = (if int (length ranked) > max_systems (finder_config self)
                         then butlast ranked else ranked)
             in Inr (self\<lparr>best_systems := kept\<rparr>,
                     [SaveSystems kept, PlotSystem new_system])))"

section \<open>The specification's words\<close>

text \<open>
  The invariant the specification gives the set of best systems: at most
  \<^verbatim>\<open>max_systems\<close> members, sorted by exponent in descending order, every exponent at
  least the admission threshold.
\<close>

definition BestSet_invariant :: "ChaoticSystemFinder \<Rightarrow> bool" where
  "BestSet_invariant self =
     (int (length (best_systems self)) \<le> max_systems (finder_config self) \<and>
      sorted_wrt (\<lambda>a b. lyapunov b \<le> lyapunov a) (best_systems self) \<and>
      (\<forall>s \<in> set (best_systems self).
         Fin (lyapunov_threshold (finder_lyap_config self)) \<le> lyapunov s))"

text \<open>
  The estimator as the specification words it. The Euclidean separation of two
  points of one dimension, coordinate by coordinate; the number of steps skipped; the
  indices that qualify, those from the skip on whose separation is positive and below
  the extreme threshold; and the estimate, the sentinel when no index qualifies and
  otherwise the sum of the logarithms of separation over initial distance, divided by
  the number of qualifying indices times the renormalisation interval.
\<close>

definition euclidean_separation :: "real list \<Rightarrow> real list \<Rightarrow> real" where
  "euclidean_separation a b = sqrt (sum_list (map (\<lambda>k. (a ! k - b ! k) ^ 2) [0..<length a]))"

definition spec_skip :: "LyapunovCalculator \<Rightarrow> nat \<Rightarrow> nat" where
  "spec_skip calc n = min (nat (calc_lyap_skip_steps calc)) (n div 4)"

definition spec_qualifies ::
  "LyapunovCalculator \<Rightarrow> real list list \<Rightarrow> real list list \<Rightarrow> nat \<Rightarrow> bool" where
  "spec_qualifies calc reference_traj perturbed_traj i =
     (0 < euclidean_separation (reference_traj ! i) (perturbed_traj ! i) \<and>
      euclidean_separation (reference_traj ! i) (perturbed_traj ! i)
        < calc_extreme_threshold calc)"

definition spec_valid_indices ::
  "LyapunovCalculator \<Rightarrow> real list list \<Rightarrow> real list list \<Rightarrow> nat list" where
  "spec_valid_indices calc reference_traj perturbed_traj =
     filter (spec_qualifies calc reference_traj perturbed_traj)
       [spec_skip calc (length reference_traj)..<length reference_traj]"

definition spec_estimate ::
  "LyapunovCalculator \<Rightarrow> real list list \<Rightarrow> real list list \<Rightarrow> exponent" where
  "spec_estimate calc reference_traj perturbed_traj =
     (let valid = spec_valid_indices calc reference_traj perturbed_traj
      in if valid = [] then NegInf
         else Fin (sum_list
                     (map (\<lambda>i. ln (euclidean_separation (reference_traj ! i) (perturbed_traj ! i)
                                     / calc_lyap_norm_dist calc))
                        valid)
                   / (real (length valid) * real_of_int (calc_lyap_renorm_steps calc))))"

section \<open>Concrete inputs\<close>

text \<open>
  A configuration whose density bounds are both negative; the lower one is below the
  upper one, as the data model asks.
\<close>

definition negative_bound_config :: ChaoticSysFinderConfig where
  "negative_bound_config =
     default_config \<lparr> density_constraints := \<lparr> density_MIN = - 3, density_MAX = - 1 \<rparr> \<rparr>"

text \<open>
  A configuration that breaks every rule of the data model at once: no dimension, a
  negative number of iterations, a density bound turned around, thresholds that are
  not positive.
\<close>

definition invalid_config :: ChaoticSysFinderConfig where
  "invalid_config =
     \<lparr> dimensions = 0, param_count = 12, iterations = - 1, max_systems = 10,
       coefficient_limit = 25 / 10, max_attempts = 9000,
       output_path = ''./best_attractors'',
       density_constraints = \<lparr> density_MIN = 5, density_MAX = - 5 \<rparr>,
       lyap_config =
         \<lparr> transient_skip_steps = 100, initial_distance = 1 / 10 ^ 8, renorm_steps = 10,
           convergence_threshold = 0, extreme_threshold = - 1, lyapunov_threshold = 0 \<rparr> \<rparr>"

text \<open>A file system in which the storage directory cannot be created.\<close>

definition unwritable_env :: environment where
  "unwritable_env = \<lparr> mkdir = (\<lambda>p. Some OSError), read_systems = (\<lambda>p. None) \<rparr>"

text \<open>
  The default configuration cut down to one dimension and one iteration, and a
  generator whose first five values give the point \<open>[1]\<close>, the direction \<open>[1/2]\<close>
  and the coefficients \<open>[0, 4, 0]\<close>: the map \<open>x \<mapsto> 2 x\<close>.
\<close>

definition small_config :: ChaoticSysFinderConfig where
  "small_config = default_config \<lparr> dimensions := 1, iterations := 1 \<rparr>"

definition small_rng :: rng where
  "small_rng k =
     (if k = 0 then 7 / 10 else if k = 1 then 3 / 4 else if k = 3 then 9 / 10 else 1 / 2)"

text \<open>
  A finder that keeps at most two systems, with the default threshold \<open>0.05\<close>, and
  a system of a given exponent to fill it with.
\<close>

definition example_system :: "real \<Rightarrow> AttractorSystem" where
  "example_system e =
     \<lparr> sys_dimensions = 3, sys_param_count = 12, sys_iterations = 2000, coefficients = [],
       lyapunov = Fin e, points = [], timestamp = ''20240101_000000'' \<rparr>"

definition example_finder :: "AttractorSystem list \<Rightarrow> ChaoticSystemFinder" where
  "example_finder members =
     \<lparr> finder_config = default_config \<lparr> max_systems := 2 \<rparr>,
       finder_lyap_config = default_LyapConfig,
       storage_manager =
         \<lparr> storage_path = ''./best_attractors'',
           systems_file = ''./best_attractors/systems.json'' \<rparr>,
       lyap_calculator = new_LyapunovCalculator default_LyapConfig,
       simulator = new_TrajectorySimulator (default_config \<lparr> max_systems := 2 \<rparr>),
       visualizer = ''./best_attractors'',
       best_systems = members \<rparr>"

text \<open>
  Two trajectories of four points whose separation is twice the initial distance
  \<open>10^-8\<close> at the indices one and three and zero elsewhere.
\<close>

definition doubling_reference :: "real list list" where
  "doubling_reference = [[0], [1], [2], [3]]"

definition doubling_perturbed :: "real list list" where
  "doubling_perturbed = [[0], [1 + 2 / 10 ^ 8], [2], [3 + 2 / 10 ^ 8]]"

section \<open>Auxiliary facts\<close>

lemma comprehension_total:
  "(\<And>x. x \<in> set xs \<Longrightarrow> f x = Inr (g x)) \<Longrightarrow> comprehension f xs = Inr (map g xs)"
  by (induction xs) simp_all

lemma magnitude_single: "magnitude [x] = \<bar>x\<bar>"
  by (simp add: magnitude_def)

lemma magnitude_nonneg: "0 \<le> magnitude point"
  unfolding magnitude_def by (intro real_sqrt_ge_zero sum_list_nonneg) auto

lemma sum_list_scaled_squares:
  "sum_list (map (\<lambda>x. (x * c) * (x * c)) point) =
     c * c * sum_list (map (\<lambda>x. x * x) (point :: real list))"
  by (induction point) (simp_all add: algebra_simps)

lemma magnitude_scaled: "magnitude (map (\<lambda>x. x * c) point) = \<bar>c\<bar> * magnitude point"
  by (simp add: magnitude_def comp_def sum_list_scaled_squares real_sqrt_mult)

lemma normalize_point_scaled:
  assumes "sim_max_density sim < magnitude point" and "magnitude point \<noteq> 0"
  shows "normalize_point sim point =
           Inr (map (\<lambda>x. x * (sim_max_density sim / magnitude point)) point)"
  using assms
  by (simp add: normalize_point_def py_div_def
        comprehension_total [where g = "\<lambda>x. x * (sim_max_density sim / magnitude point)"])

lemma default_thresholds:
  "sim_extreme_threshold (new_TrajectorySimulator default_config) = 10 ^ 10"
  "sim_convergence_threshold (new_TrajectorySimulator default_config) = 1 / 10 ^ 10"
  "sim_max_density (new_TrajectorySimulator default_config) = 5"
  by (simp_all add: new_TrajectorySimulator_def default_config_def default_LyapConfig_def
        default_DensityConstraints_def)

lemma upt_3: "[0..<3] = [0, 1, 2]"
  by (simp add: upt_rec)

lemma sub_add_zip:
  "length ps = length ds \<Longrightarrow>
   map (\<lambda>(q, p). q - p) (zip (map (\<lambda>(p, d). p + d * (c :: real)) (zip ps ds)) ps) =
     map (\<lambda>d. d * c) ds"
  by (induction ps ds rule: list_induct2) simp_all

lemma py_min_Min: "xs \<noteq> [] \<Longrightarrow> py_min xs = Inr (Min (set xs))"
proof (cases xs)
  case Nil
  assume "xs \<noteq> []"
  with Nil show ?thesis by simp
next
  case (Cons x rest)
  with Min.set_eq_fold [of x rest] show ?thesis by (simp add: py_min_def)
qed

lemma exponent_order [simp]:
  "(Fin x < Fin y) = (x < y)" "(NegInf < Fin y)" "\<not> (a < NegInf)"
  by (cases a; auto simp: less_exponent_def)+

lemma sort_descending_sorted:
  "sorted_wrt (\<lambda>a b. lyapunov b \<le> lyapunov a) (sort_descending xs)"
proof -
  have "sorted (map lyapunov (sort_key lyapunov (rev xs)))"
    by (rule sorted_sort_key)
  then have "sorted_wrt (\<lambda>a b. lyapunov a \<le> lyapunov b) (sort_key lyapunov (rev xs))"
    by (simp add: sorted_wrt_map)
  then show ?thesis
    by (simp add: sort_descending_def sorted_wrt_rev)
qed

lemma set_sort_descending: "set (sort_descending xs) = set xs"
  by (simp add: sort_descending_def)

lemma length_sort_descending: "length (sort_descending xs) = length xs"
  by (simp add: sort_descending_def)

lemma sorted_wrt_butlast: "sorted_wrt P xs \<Longrightarrow> sorted_wrt P (butlast xs)"
  unfolding butlast_conv_take by (rule sorted_wrt_take)

lemma sorted_wrt_last_least:
  assumes "sorted_wrt P xs" and "x \<in> set (butlast xs)"
  shows "P x (last xs)"
proof -
  from assms(2) have "xs \<noteq> []" by auto
  then have "butlast xs @ [last xs] = xs" by simp
  with assms(1) have "sorted_wrt P (butlast xs @ [last xs])" by simp
  then have "\<forall>y \<in> set (butlast xs). P y (last xs)"
    unfolding sorted_wrt_append by simp
  with assms(2) show ?thesis by blast
qed

lemma is_system_worthy_eq:
  assumes "1 \<le> max_systems (finder_config self)"
  shows "is_system_worthy self lyap =
           Inr (Fin (lyapunov_threshold (finder_lyap_config self)) \<le> lyap \<and>
                (int (length (best_systems self)) < max_systems (finder_config self) \<or>
                 Min (lyapunov ` set (best_systems self)) < lyap))"
proof (cases "lyap < Fin (lyapunov_threshold (finder_lyap_config self))")
  case True
  then show ?thesis by (simp add: is_system_worthy_def not_le)
next
  case above: False
  then have ge: "Fin (lyapunov_threshold (finder_lyap_config self)) \<le> lyap"
    by (simp add: not_less)
  show ?thesis
  proof (cases "int (length (best_systems self)) < max_systems (finder_config self)")
    case True
    with above ge show ?thesis by (simp add: is_system_worthy_def)
  next
    case False
    with assms have "map lyapunov (best_systems self) \<noteq> []" by auto
    from py_min_Min [OF this] have
      "py_min (map lyapunov (best_systems self)) = Inr (Min (lyapunov ` set (best_systems self)))"
      by simp
    with above ge False show ?thesis by (simp add: is_system_worthy_def)
  qed
qed

section \<open>The terminal test\<close>

text \<open>
  Claim C5, as amended. \<^verbatim>\<open>check_convergence\<close> compares strictly on both sides. With
  the convergence threshold at most the extreme threshold, a point whose norm is
  exactly the extreme threshold is not terminal, a point whose norm is exactly the
  convergence threshold is not terminal, and a point strictly between the two is not
  terminal; a point is terminal when its norm is above the extreme threshold or below
  the convergence threshold.
\<close>

theorem check_convergence_boundaries:
  assumes "sim_convergence_threshold sim \<le> sim_extreme_threshold sim"
  shows "(magnitude point = sim_extreme_threshold sim \<longrightarrow> \<not> check_convergence sim point) \<and>
         (magnitude point = sim_convergence_threshold sim \<longrightarrow> \<not> check_convergence sim point) \<and>
         (sim_convergence_threshold sim < magnitude point \<and>
          magnitude point < sim_extreme_threshold sim \<longrightarrow> \<not> check_convergence sim point) \<and>
         (sim_extreme_threshold sim < magnitude point \<longrightarrow> check_convergence sim point) \<and>
         (magnitude point < sim_convergence_threshold sim \<longrightarrow> check_convergence sim point)"
  using assms by (auto simp: check_convergence_def)

text \<open>
  The theorem at the default configuration: norms \<open>10^10\<close> (the extreme threshold),
  \<open>1\<close>, \<open>2 \<times> 10^10\<close> and \<open>0\<close>.
\<close>

theorem check_convergence_boundaries_witness:
  "\<not> check_convergence (new_TrajectorySimulator default_config) [10 ^ 10] \<and>
   \<not> check_convergence (new_TrajectorySimulator default_config) [1] \<and>
   check_convergence (new_TrajectorySimulator default_config) [2 * 10 ^ 10] \<and>
   check_convergence (new_TrajectorySimulator default_config) [0]"
proof -
  let ?sim = "new_TrajectorySimulator default_config"
  have h: "sim_convergence_threshold ?sim \<le> sim_extreme_threshold ?sim"
    by (simp add: default_thresholds)
  from check_convergence_boundaries [OF h, of "[10 ^ 10]"]
       check_convergence_boundaries [OF h, of "[1]"]
       check_convergence_boundaries [OF h, of "[2 * 10 ^ 10]"]
       check_convergence_boundaries [OF h, of "[0]"]
  show ?thesis by (simp add: default_thresholds magnitude_single)
qed

text \<open>
  Claim C5 as stated fails: under the default configuration the point \<open>[10^10]\<close> has
  norm exactly the extreme threshold and the point \<open>[10^-10]\<close> has norm exactly the
  convergence threshold, and neither is terminal.
\<close>

theorem check_convergence_at_thresholds:
  "magnitude [10 ^ 10] = sim_extreme_threshold (new_TrajectorySimulator default_config) \<and>
   \<not> check_convergence (new_TrajectorySimulator default_config) [10 ^ 10] \<and>
   magnitude [1 / 10 ^ 10] = sim_convergence_threshold (new_TrajectorySimulator default_config) \<and>
   \<not> check_convergence (new_TrajectorySimulator default_config) [1 / 10 ^ 10]"
  by (simp add: check_convergence_def magnitude_single default_thresholds)

section \<open>The clamp\<close>

text \<open>
  Claim C10, as amended. For every point and every density bound \<open>M \<ge> 0\<close>,
  \<^verbatim>\<open>normalize_point\<close> returns the point unchanged when its norm does not exceed \<open>M\<close>;
  otherwise it returns the point scaled by the non-negative factor \<open>M / norm\<close>, whose
  norm is exactly \<open>M\<close>; in both cases it returns a point whose norm does not exceed
  \<open>M\<close>.
\<close>

theorem normalize_point_clamps:
  assumes "0 \<le> sim_max_density sim"
  shows "(magnitude point \<le> sim_max_density sim \<longrightarrow> normalize_point sim point = Inr point) \<and>
         (sim_max_density sim < magnitude point \<longrightarrow>
            normalize_point sim point =
              Inr (map (\<lambda>x. x * (sim_max_density sim / magnitude point)) point) \<and>
            0 \<le> sim_max_density sim / magnitude point \<and>
            magnitude (map (\<lambda>x. x * (sim_max_density sim / magnitude point)) point) =
              sim_max_density sim) \<and>
         (\<exists>q. normalize_point sim point = Inr q \<and> magnitude q \<le> sim_max_density sim)"
proof -
  have unchanged: "normalize_point sim point = Inr point"
    if "magnitude point \<le> sim_max_density sim"
    using that by (simp add: normalize_point_def)
  have scaled:
    "normalize_point sim point =
       Inr (map (\<lambda>x. x * (sim_max_density sim / magnitude point)) point) \<and>
     0 \<le> sim_max_density sim / magnitude point \<and>
     magnitude (map (\<lambda>x. x * (sim_max_density sim / magnitude point)) point) =
       sim_max_density sim"
    if over: "sim_max_density sim < magnitude point"
  proof -
    from over assms have pos: "0 < magnitude point" by simp
    then have "normalize_point sim point =
        Inr (map (\<lambda>x. x * (sim_max_density sim / magnitude point)) point)"
      using over by (simp add: normalize_point_scaled)
    moreover have "0 \<le> sim_max_density sim / magnitude point"
      using assms pos by simp
    moreover from this have
      "magnitude (map (\<lambda>x. x * (sim_max_density sim / magnitude point)) point) =
         sim_max_density sim"
      using pos by (simp only: magnitude_scaled abs_of_nonneg) simp
    ultimately show ?thesis by simp
  qed
  have bounded: "\<exists>q. normalize_point sim point = Inr q \<and> magnitude q \<le> sim_max_density sim"
  proof (cases "magnitude point \<le> sim_max_density sim")
    case True
    then show ?thesis using unchanged by simp
  next
    case False
    then have "sim_max_density sim < magnitude point" by simp
    from scaled [OF this] show ?thesis by simp
  qed
  from unchanged scaled bounded show ?thesis by blast
qed

text \<open>
  The theorem at the default bound \<open>5\<close>: the point \<open>[3, 4]\<close> of norm \<open>5\<close> is
  returned as it is, the point \<open>[6, 8]\<close> of norm \<open>10\<close> is scaled to \<open>[3, 4]\<close>.
\<close>

theorem normalize_point_clamps_witness:
  "normalize_point (new_TrajectorySimulator default_config) [3, 4] = Inr [3, 4] \<and>
   normalize_point (new_TrajectorySimulator default_config) [6, 8] = Inr [3, 4] \<and>
   magnitude [3, 4] = 5"
proof -
  have m34: "magnitude [3, 4] = 5" by (simp add: magnitude_def)
  have m68: "magnitude [6, 8] = 10" by (simp add: magnitude_def)
  have h: "0 \<le> sim_max_density (new_TrajectorySimulator default_config)"
    by (simp add: default_thresholds)
  from normalize_point_clamps [OF h, of "[3, 4]"] normalize_point_clamps [OF h, of "[6, 8]"]
  show ?thesis by (simp add: m34 m68 default_thresholds)
qed

text \<open>
  Claim C10 as stated fails for a negative bound: with density bounds \<open>[-3, -1]\<close>
  the point \<open>[1]\<close> is turned into \<open>[-1]\<close>, whose norm \<open>1\<close> exceeds the bound \<open>-1\<close>.
\<close>

theorem normalize_point_negative_bound:
  "density_MIN (density_constraints negative_bound_config) <
     density_MAX (density_constraints negative_bound_config) \<and>
   normalize_point (new_TrajectorySimulator negative_bound_config) [1] = Inr [- 1] \<and>
   sim_max_density (new_TrajectorySimulator negative_bound_config) < magnitude [- 1]"
  by (simp add: negative_bound_config_def default_config_def new_TrajectorySimulator_def
        normalize_point_def magnitude_single py_div_def)

section \<open>Construction of a configuration\<close>

text \<open>
  Claim C4, as amended. Constructing a configuration value validates nothing and
  never fails: for every input, also one with non-positive dimensions or iterations,
  with a density bound whose minimum is not below its maximum, or with non-positive
  thresholds, construction returns the value that holds every given field as it was
  given and the default for every field left out.
\<close>

theorem new_config_accepts_everything:
  "new_LyapConfig skip_arg dist_arg renorm_arg conv_arg extreme_arg threshold_arg =
     Inr \<lparr> transient_skip_steps = or_default 100 skip_arg,
           initial_distance = or_default (1 / 10 ^ 8) dist_arg,
           renorm_steps = or_default 10 renorm_arg,
           convergence_threshold = or_default (1 / 10 ^ 10) conv_arg,
           extreme_threshold = or_default (10 ^ 10) extreme_arg,
           lyapunov_threshold = or_default (5 / 100) threshold_arg \<rparr> \<and>
   new_DensityConstraints lo hi =
     Inr \<lparr> density_MIN = or_default (- 5) lo, density_MAX = or_default 5 hi \<rparr> \<and>
   (\<exists>c. new_ChaoticSysFinderConfig dims params iters systems limit attempts path density lyap
          = Inr c \<and>
        dimensions c = or_default 3 dims \<and>
        param_count c = or_default 12 params \<and>
        iterations c = or_default 2000 iters \<and>
        max_systems c = or_default 10 systems \<and>
        coefficient_limit c = or_default (25 / 10) limit \<and>
        max_attempts c = or_default 9000 attempts \<and>
        output_path c = or_default ''./best_attractors'' path \<and>
        density_constraints c = or_default default_DensityConstraints density \<and>
        lyap_config c = or_default default_LyapConfig lyap)"
  by (simp add: new_LyapConfig_def new_DensityConstraints_def new_ChaoticSysFinderConfig_def)

text \<open>
  Claim C4 as stated fails: the configuration with dimensions \<open>0\<close>, iterations
  \<open>-1\<close>, density bound \<open>[5, -5]\<close> and thresholds \<open>0\<close>, \<open>-1\<close> and \<open>0\<close> is
  constructed without an error.
\<close>

theorem new_config_accepts_invalid:
  "new_ChaoticSysFinderConfig (Some 0) None (Some (- 1)) None None None None
     (Some \<lparr> density_MIN = 5, density_MAX = - 5 \<rparr>)
     (Some \<lparr> transient_skip_steps = 100, initial_distance = 1 / 10 ^ 8, renorm_steps = 10,
           convergence_threshold = 0, extreme_threshold = - 1, lyapunov_threshold = 0 \<rparr>)
   = Inr invalid_config \<and>
   dimensions invalid_config \<le> 0 \<and> iterations invalid_config \<le> 0 \<and>
   density_MAX (density_constraints invalid_config)
     \<le> density_MIN (density_constraints invalid_config) \<and>
   convergence_threshold (lyap_config invalid_config) \<le> 0 \<and>
   extreme_threshold (lyap_config invalid_config) \<le> 0 \<and>
   lyapunov_threshold (lyap_config invalid_config) \<le> 0"
  by (simp add: new_ChaoticSysFinderConfig_def or_default_def invalid_config_def)

section \<open>Construction of the finder\<close>

text \<open>
  Claim C2, as amended. For every configuration value (and for none given),
  constructing \<^verbatim>\<open>ChaoticSystemFinder\<close> raises and returns no finder, so no search
  can start through the constructor. When the storage manager's directory creation
  raises, that error is the one raised; in every other case the error is the
  \<^verbatim>\<open>TypeError\<close> of calling \<^verbatim>\<open>TrajectorySimulator\<close> with two positional arguments
  where its \<^verbatim>\<open>__init__\<close> takes the configuration alone.
\<close>

theorem new_ChaoticSystemFinder_raises:
  "new_ChaoticSystemFinder env config_arg =
     Inl (case mkdir env (output_path (or_default default_config config_arg)) of
            Some e \<Rightarrow> e
          | None \<Rightarrow> TypeError)"
  by (cases config_arg)
     (simp_all add: new_ChaoticSystemFinder_def new_StorageManager_def Let_def
        split: option.splits)

text \<open>
  Claim C2 as stated fails where the storage directory cannot be created: the
  storage manager is built before the simulator, and its error comes first.
\<close>

theorem new_ChaoticSystemFinder_mkdir_error:
  "new_ChaoticSystemFinder unwritable_env (Some default_config) = Inl OSError"
  by (simp add: new_ChaoticSystemFinder_def new_StorageManager_def unwritable_env_def)

section \<open>Sampling\<close>

text \<open>
  What \<^verbatim>\<open>generate_polynomial_coefficients\<close> does return: as many values as the
  formula says, each within half of \<^verbatim>\<open>param_max\<close>, which the constructor set to
  \<^verbatim>\<open>max_systems\<close>.
\<close>

lemma generate_polynomial_coefficients_length:
  "length (fst (generate_polynomial_coefficients sim r)) =
     nat (coeffs_per_dim (sim_dimensions sim) * sim_dimensions sim)"
  by (simp add: generate_polynomial_coefficients_def draws_def Let_def)

lemma coeffs_per_dim_3: "coeffs_per_dim 3 = 10"
  by (simp add: coeffs_per_dim_def)

lemma uniform_between:
  assumes "a \<le> b" and "0 \<le> u" and "u < 1"
  shows "a \<le> uniform a b u \<and> uniform a b u \<le> b"
proof -
  from assms have "0 \<le> (b - a) * u" by simp
  moreover from assms have "(b - a) * u \<le> (b - a) * 1"
    by (intro mult_left_mono) simp_all
  ultimately show ?thesis by (simp add: uniform_def)
qed

lemma generate_polynomial_coefficients_range:
  assumes "rng_ok r" and "0 \<le> max_systems config"
    and "c \<in> set (fst (generate_polynomial_coefficients (new_TrajectorySimulator config) r))"
  shows "- real_of_int (max_systems config) / 2 \<le> c \<and> c \<le> real_of_int (max_systems config) / 2"
proof -
  from assms(3) obtain k where
    c: "c = uniform (- real_of_int (max_systems config) / 2)
                    (real_of_int (max_systems config) / 2) (r k)"
    by (auto simp: generate_polynomial_coefficients_def draws_def new_TrajectorySimulator_def
          Let_def)
  from assms(1) have u: "0 \<le> r k" "r k < 1" by (simp_all add: rng_ok_def)
  from assms(2) have "- real_of_int (max_systems config) / 2 \<le> real_of_int (max_systems config) / 2"
    by simp
  from uniform_between [OF this u] show ?thesis unfolding c .
qed

text \<open>
  Claim C3 at the default configuration (\<^verbatim>\<open>max_systems = 10\<close>,
  \<^verbatim>\<open>coefficient_limit = 2.5\<close>) with a generator that returns \<open>0.9\<close>: the thirty
  values the claim counts are returned, and each is \<open>4\<close>, above
  \<^verbatim>\<open>coefficient_limit / 2\<close>.
\<close>

theorem coefficients_exceed_coefficient_limit:
  "fst (generate_polynomial_coefficients (new_TrajectorySimulator default_config)
          (\<lambda>k. 9 / 10)) = replicate 30 4 \<and>
   coefficient_limit default_config / 2 < 4"
  by (simp add: generate_polynomial_coefficients_def new_TrajectorySimulator_def
        default_config_def draws_def uniform_def coeffs_per_dim_def map_replicate_const)

section \<open>The seed pair\<close>

text \<open>
  When \<^verbatim>\<open>create_random_points\<close> returns, for a positive dimension, the two points
  are apart by the absolute value of \<^verbatim>\<open>lyap_norm_dist\<close>: it returns only when the
  sampled direction has a magnitude other than zero.
\<close>

lemma create_random_points_separation:
  assumes ret: "create_random_points sim r = Inr ((point, perturbed), r')"
    and dims: "0 < sim_dimensions sim"
  shows "magnitude (map (\<lambda>(q, p). q - p) (zip perturbed point)) = \<bar>sim_lyap_norm_dist sim\<bar>"
proof -
  define n where "n = nat (sim_dimensions sim)"
  define ps where
    "ps = map (uniform (sim_min_density sim / 2) (sim_max_density sim / 2)) (fst (draws n r))"
  define ds where "ds = map (uniform (- 1) 1) (fst (draws n (snd (draws n r))))"
  define f where
    "f = (\<lambda>(p, d). case py_div (d * sim_lyap_norm_dist sim) (magnitude ds) of
                      Inl e \<Rightarrow> Inl e | Inr q \<Rightarrow> Inr (p + q))"
  have len: "length ps = length ds" "length ds = n"
    by (simp_all add: ps_def ds_def draws_def)
  from dims have "0 < n" by (simp add: n_def)
  with len obtain p ps' d ds' where cons: "ps = p # ps'" "ds = d # ds'"
    by (cases ps; cases ds) auto
  have unfolded: "create_random_points sim r =
      (case comprehension f (zip ps ds) of
         Inl e \<Rightarrow> Inl e
       | Inr perturbed \<Rightarrow> Inr ((ps, perturbed), snd (draws n (snd (draws n r)))))"
    unfolding create_random_points_def n_def ps_def ds_def f_def
    by (simp add: Let_def split_beta)
  have nonzero: "magnitude ds \<noteq> 0"
  proof
    assume "magnitude ds = 0"
    then have "f (p, d) = Inl ZeroDivisionError"
      by (simp add: f_def py_div_def)
    then have "comprehension f (zip ps ds) = Inl ZeroDivisionError"
      by (simp add: cons)
    with unfolded ret show False by simp
  qed
  then have "\<And>x. f x = Inr ((\<lambda>(p, d). p + d * (sim_lyap_norm_dist sim / magnitude ds)) x)"
    by (simp add: f_def py_div_def split_beta)
  then have "comprehension f (zip ps ds) =
      Inr (map (\<lambda>(p, d). p + d * (sim_lyap_norm_dist sim / magnitude ds)) (zip ps ds))"
    by (intro comprehension_total) simp
  with unfolded ret have
    "point = ps"
    "perturbed = map (\<lambda>(p, d). p + d * (sim_lyap_norm_dist sim / magnitude ds)) (zip ps ds)"
    by simp_all
  then have "map (\<lambda>(q, p). q - p) (zip perturbed point) =
      map (\<lambda>d. d * (sim_lyap_norm_dist sim / magnitude ds)) ds"
    using len(1) by (simp only: sub_add_zip)
  then have "magnitude (map (\<lambda>(q, p). q - p) (zip perturbed point)) =
      \<bar>sim_lyap_norm_dist sim / magnitude ds\<bar> * magnitude ds"
    by (simp only: magnitude_scaled)
  also have "\<dots> = \<bar>sim_lyap_norm_dist sim\<bar>"
    using nonzero magnitude_nonneg [of ds] by (simp add: abs_divide)
  finally show ?thesis .
qed

text \<open>
  Claim C9 at the default configuration with a generator that returns \<open>0.5\<close> at
  every draw: \<^verbatim>\<open>random.uniform(-1, 1)\<close> is then \<open>0\<close> in every coordinate, the
  direction has magnitude zero, and the division raises where the claim promises two
  points. The renormalisation in \<^verbatim>\<open>simulate\<close> guards the same division with
  \<^verbatim>\<open>separation_dist > 0\<close>.
\<close>

theorem create_random_points_zero_direction:
  "create_random_points (new_TrajectorySimulator default_config) (\<lambda>k. 1 / 2) =
     Inl ZeroDivisionError"
  by (simp add: create_random_points_def new_TrajectorySimulator_def default_config_def
        default_DensityConstraints_def default_LyapConfig_def draws_def uniform_def
        upt_3 magnitude_def py_div_def)

section \<open>The end of the simulation\<close>

text \<open>
  Whatever \<^verbatim>\<open>simulate\<close> returns, the exponent is the sentinel: the return that
  follows the loop is the same as the two inside it.
\<close>

lemma simulate_loop_sentinel:
  "simulate_loop sim coeffs its st = Inr (Returned (e, c, t)) \<Longrightarrow> e = NegInf"
proof (induction its arbitrary: st)
  case Nil
  then show ?case by simp
next
  case (Cons iteration rest)
  obtain point perturbed reference_traj perturbed_traj
    where st: "st = (point, perturbed, reference_traj, perturbed_traj)"
    by (cases st) auto
  from Cons.prems show ?case
    unfolding st
    by (auto simp: Let_def split: sum.splits if_splits dest: Cons.IH)
qed

lemma simulate_sentinel:
  assumes "simulate sim r = Inr ((e, c, t), r')"
  shows "e = NegInf"
  using assms
  by (auto simp: simulate_def Let_def split: sum.splits prod.splits loop_result.splits
        dest: simulate_loop_sentinel)

text \<open>The run of \<open>small_config\<close> with \<open>small_rng\<close>, step by step.\<close>

lemma small_sim:
  "sim_dimensions (new_TrajectorySimulator small_config) = 1"
  "sim_iterations (new_TrajectorySimulator small_config) = 1"
  "sim_param_max (new_TrajectorySimulator small_config) = 10"
  "sim_min_density (new_TrajectorySimulator small_config) = - 5"
  "sim_max_density (new_TrajectorySimulator small_config) = 5"
  "sim_convergence_threshold (new_TrajectorySimulator small_config) = 1 / 10 ^ 10"
  "sim_extreme_threshold (new_TrajectorySimulator small_config) = 10 ^ 10"
  "sim_lyap_norm_dist (new_TrajectorySimulator small_config) = 1 / 10 ^ 8"
  "sim_lyap_renorm_steps (new_TrajectorySimulator small_config) = 10"
  by (simp_all add: new_TrajectorySimulator_def small_config_def default_config_def
        default_LyapConfig_def default_DensityConstraints_def)

lemma small_points:
  "create_random_points (new_TrajectorySimulator small_config) small_rng =
     Inr (([1], [1 + 1 / 10 ^ 8]), (\<lambda>k. small_rng (Suc (Suc k))))"
  by (simp add: create_random_points_def small_sim draws_def small_rng_def uniform_def
        magnitude_single py_div_def)

lemma small_coefficients:
  "generate_polynomial_coefficients (new_TrajectorySimulator small_config)
     (\<lambda>k. small_rng (Suc (Suc k))) = ([0, 4, 0], (\<lambda>k. small_rng (k + 5)))"
  by (simp add: generate_polynomial_coefficients_def small_sim draws_def small_rng_def
        uniform_def coeffs_per_dim_def upt_3 add.commute)

lemma small_step:
  assumes "\<bar>x\<bar> \<le> 5 / 2"
  shows "calculate_new_point (new_TrajectorySimulator small_config) [x] [0, 4, 0] = Inr [2 * x]"
  using assms
  by (auto simp: calculate_new_point_def small_sim compute_polynomial_terms_def
        combinations_with_replacement_def normalize_point_def magnitude_single)

lemma small_loop:
  "simulate_loop (new_TrajectorySimulator small_config) [0, 4, 0]
     [0..sim_iterations (new_TrajectorySimulator small_config) - 1]
     ([1], [1 + 1 / 10 ^ 8], [], []) =
   Inr (Completed ([2], [2 + 2 / 10 ^ 8], [[2]], [[2 + 2 / 10 ^ 8]]))"
  by (simp add: small_step upto.simps check_convergence_def magnitude_single small_sim Let_def)

text \<open>
  Claim C1 at \<open>small_config\<close> and \<open>small_rng\<close>. The only iteration completes with
  neither point terminal, leaving the trajectories \<open>[[2]]\<close> and \<open>[[2.00000002]]\<close>;
  the calculator applied to them gives \<open>ln 2 / 10\<close>; \<^verbatim>\<open>simulate\<close> returns the
  sentinel.
\<close>

theorem simulate_discards_estimate:
  "simulate_loop (new_TrajectorySimulator small_config) [0, 4, 0]
     [0..sim_iterations (new_TrajectorySimulator small_config) - 1]
     ([1], [1 + 1 / 10 ^ 8], [], []) =
   Inr (Completed ([2], [2 + 2 / 10 ^ 8], [[2]], [[2 + 2 / 10 ^ 8]])) \<and>
   simulate (new_TrajectorySimulator small_config) small_rng =
     Inr ((NegInf, [0, 4, 0], [[2]]), (\<lambda>k. small_rng (k + 5))) \<and>
   calculate (new_LyapunovCalculator (lyap_config small_config)) [[2]] [[2 + 2 / 10 ^ 8]] =
     Inr (Fin (ln 2 / 10))"
proof -
  have "calculate (new_LyapunovCalculator (lyap_config small_config)) [[2]] [[2 + 2 / 10 ^ 8]] =
     Inr (Fin (ln 2 / 10))"
    by (simp add: calculate_def new_LyapunovCalculator_def small_config_def default_config_def
          default_LyapConfig_def upto.simps py_index_def separation_of_def py_log_ratio_def)
  moreover have "simulate (new_TrajectorySimulator small_config) small_rng =
     Inr ((NegInf, [0, 4, 0], [[2]]), (\<lambda>k. small_rng (k + 5)))"
    by (simp only: simulate_def small_points small_coefficients small_loop
          sum.case prod.case loop_result.case Let_def)
  ultimately show ?thesis using small_loop by simp
qed


section \<open>Admission\<close>

text \<open>
  Claim C7. With \<^verbatim>\<open>max_systems\<close> at least one, \<^verbatim>\<open>is_system_worthy\<close> returns false
  for an exponent strictly below the threshold; for an exponent at or above the
  threshold (equal to it included) it returns true when the set holds fewer than
  \<^verbatim>\<open>max_systems\<close> members, and otherwise it returns whether the exponent is
  strictly greater than the least exponent among the members, so that a tie with the
  least one is rejected.
\<close>

theorem is_system_worthy_policy:
  assumes "1 \<le> max_systems (finder_config self)"
  shows "(lyap < Fin (lyapunov_threshold (finder_lyap_config self)) \<longrightarrow>
            is_system_worthy self lyap = Inr False) \<and>
         (Fin (lyapunov_threshold (finder_lyap_config self)) \<le> lyap \<and>
          int (length (best_systems self)) < max_systems (finder_config self) \<longrightarrow>
            is_system_worthy self lyap = Inr True) \<and>
         (Fin (lyapunov_threshold (finder_lyap_config self)) \<le> lyap \<and>
          max_systems (finder_config self) \<le> int (length (best_systems self)) \<longrightarrow>
            is_system_worthy self lyap =
              Inr (Min (lyapunov ` set (best_systems self)) < lyap))"
proof -
  have "py_min (map lyapunov (best_systems self)) =
          Inr (Min (lyapunov ` set (best_systems self)))"
    if "max_systems (finder_config self) \<le> int (length (best_systems self))"
  proof -
    from that assms have "map lyapunov (best_systems self) \<noteq> []" by auto
    from py_min_Min [OF this] show ?thesis by simp
  qed
  then show ?thesis
    by (auto simp: is_system_worthy_def)
qed

text \<open>
  The theorem on the specification's example, a cap of two and the threshold \<open>0.05\<close>:
  with members \<open>0.5\<close> and \<open>0.3\<close> the exponents \<open>0.2\<close> and \<open>0.3\<close> are rejected
  and \<open>0.4\<close> is admitted; with one member the exponent \<open>0.05\<close> is admitted and
  \<open>0.04\<close> is not.
\<close>

theorem is_system_worthy_policy_witness:
  "is_system_worthy (example_finder [example_system (5 / 10), example_system (3 / 10)])
     (Fin (2 / 10)) = Inr False \<and>
   is_system_worthy (example_finder [example_system (5 / 10), example_system (3 / 10)])
     (Fin (3 / 10)) = Inr False \<and>
   is_system_worthy (example_finder [example_system (5 / 10), example_system (3 / 10)])
     (Fin (4 / 10)) = Inr True \<and>
   is_system_worthy (example_finder [example_system (5 / 10)]) (Fin (5 / 100)) = Inr True \<and>
   is_system_worthy (example_finder [example_system (5 / 10)]) (Fin (4 / 100)) = Inr False"
proof -
  let ?full = "example_finder [example_system (5 / 10), example_system (3 / 10)]"
  let ?part = "example_finder [example_system (5 / 10)]"
  have h: "1 \<le> max_systems (finder_config ?full)" "1 \<le> max_systems (finder_config ?part)"
    by (simp_all add: example_finder_def)
  from is_system_worthy_policy [OF h(1), of "Fin (2 / 10)"]
       is_system_worthy_policy [OF h(1), of "Fin (3 / 10)"]
       is_system_worthy_policy [OF h(1), of "Fin (4 / 10)"]
       is_system_worthy_policy [OF h(2), of "Fin (5 / 100)"]
       is_system_worthy_policy [OF h(2), of "Fin (4 / 100)"]
  show ?thesis
    by (simp add: example_finder_def example_system_def default_LyapConfig_def)
qed


section \<open>The set of best systems\<close>

text \<open>
  Claim C8. With \<^verbatim>\<open>max_systems\<close> at least one, \<^verbatim>\<open>add_system\<close> on a finder whose
  best systems satisfy the invariant (at most \<^verbatim>\<open>max_systems\<close> members, sorted by
  exponent in descending order, every exponent at least the threshold) returns a
  finder whose best systems satisfy it again. A rejected candidate leaves the finder
  as it was. An admitted candidate below the cap gives the members and the candidate,
  sorted; an admitted candidate at the cap gives that sorted list without its last
  member alone, and no member kept has a smaller exponent than the one dropped.
\<close>

theorem add_system_preserves_invariant:
  assumes cap: "1 \<le> max_systems (finder_config self)"
    and inv: "BestSet_invariant self"
  shows "\<exists>self' events.
           add_system self now coeffs lyap pts = Inr (self', events) \<and>
           BestSet_invariant self' \<and>
           (is_system_worthy self lyap = Inr False \<longrightarrow> self' = self) \<and>
           (is_system_worthy self lyap = Inr True \<longrightarrow>
              (int (length (best_systems self)) < max_systems (finder_config self) \<longrightarrow>
                 best_systems self' =
                   sort_descending (best_systems self @ [candidate self now coeffs lyap pts])) \<and>
              (int (length (best_systems self)) = max_systems (finder_config self) \<longrightarrow>
                 best_systems self' @
                   [last (sort_descending
                            (best_systems self @ [candidate self now coeffs lyap pts]))] =
                 sort_descending (best_systems self @ [candidate self now coeffs lyap pts]) \<and>
                 (\<forall>s \<in> set (best_systems self').
                    lyapunov (last (sort_descending
                       (best_systems self @ [candidate self now coeffs lyap pts])))
                    \<le> lyapunov s)))"
proof -
  let ?new = "candidate self now coeffs lyap pts"
  let ?ranked = "sort_descending (best_systems self @ [?new])"
  let ?kept = "if int (length ?ranked) > max_systems (finder_config self)
               then butlast ?ranked else ?ranked"
  from is_system_worthy_eq [OF cap, of lyap] obtain worthy where
    w: "is_system_worthy self lyap = Inr worthy"
    and thr: "worthy \<Longrightarrow> Fin (lyapunov_threshold (finder_lyap_config self)) \<le> lyap"
    by blast
  show ?thesis
  proof (cases worthy)
    case False
    with w have "add_system self now coeffs lyap pts = Inr (self, [])"
      by (simp add: add_system_def)
    with inv w False show ?thesis by simp
  next
    case True
    let ?self' = "self\<lparr>best_systems := ?kept\<rparr>"
    have ret: "add_system self now coeffs lyap pts =
        Inr (?self', [SaveSystems ?kept, PlotSystem ?new])"
      using w True by (simp add: add_system_def Let_def)
    have ranked_sorted: "sorted_wrt (\<lambda>a b. lyapunov b \<le> lyapunov a) ?ranked"
      by (rule sort_descending_sorted)
    have ranked_set: "set ?ranked = insert ?new (set (best_systems self))"
      by (simp add: set_sort_descending)
    have ranked_len: "length ?ranked = Suc (length (best_systems self))"
      by (simp add: length_sort_descending)
    have kept_sub: "set ?kept \<subseteq> set ?ranked"
      by (auto dest: in_set_butlastD)
    have kept_sorted: "sorted_wrt (\<lambda>a b. lyapunov b \<le> lyapunov a) ?kept"
      using ranked_sorted by (simp add: sorted_wrt_butlast)
    have kept_len: "int (length ?kept) \<le> max_systems (finder_config self)"
      using inv by (auto simp: BestSet_invariant_def ranked_len)
    have new_thr: "Fin (lyapunov_threshold (finder_lyap_config self)) \<le> lyapunov ?new"
      using thr True by (simp add: candidate_def)
    have kept_thr: "Fin (lyapunov_threshold (finder_lyap_config self)) \<le> lyapunov s"
      if "s \<in> set ?kept" for s
    proof -
      from that kept_sub have "s \<in> set ?ranked" by blast
      with ranked_set have "s = ?new \<or> s \<in> set (best_systems self)" by simp
      with new_thr inv show ?thesis by (auto simp: BestSet_invariant_def)
    qed
    have inv': "BestSet_invariant ?self'"
      unfolding BestSet_invariant_def using kept_sorted kept_len kept_thr by simp
    have below: "best_systems ?self' = ?ranked"
      if "int (length (best_systems self)) < max_systems (finder_config self)"
      using that by (simp add: ranked_len)
    have full: "best_systems ?self' @ [last ?ranked] = ?ranked \<and>
        (\<forall>s \<in> set (best_systems ?self'). lyapunov (last ?ranked) \<le> lyapunov s)"
      if "int (length (best_systems self)) = max_systems (finder_config self)"
    proof -
      from that have k: "best_systems ?self' = butlast ?ranked" by (simp add: ranked_len)
      from ranked_len have "?ranked \<noteq> []" by auto
      then have "butlast ?ranked @ [last ?ranked] = ?ranked" by simp
      moreover have "\<forall>s \<in> set (butlast ?ranked). lyapunov (last ?ranked) \<le> lyapunov s"
        using sorted_wrt_last_least [OF ranked_sorted] by blast
      ultimately show ?thesis unfolding k by (rule conjI)
    qed
    from w True have not_rejected: "is_system_worthy self lyap \<noteq> Inr False" by simp
    from ret inv' not_rejected below full show ?thesis by blast
  qed
qed


text \<open>
  The specification's example: cap two, members \<open>0.5\<close> and \<open>0.3\<close>, candidate
  \<open>0.4\<close>. The candidate is admitted and \<open>0.3\<close> is dropped.
\<close>

lemma example_add:
  "add_system (example_finder [example_system (5 / 10), example_system (3 / 10)])
     ''20240102_000000'' [] (Fin (4 / 10)) [] =
   Inr (example_finder
          [example_system (5 / 10),
           candidate (example_finder [example_system (5 / 10), example_system (3 / 10)])
             ''20240102_000000'' [] (Fin (4 / 10)) []],
        [SaveSystems
          [example_system (5 / 10),
           candidate (example_finder [example_system (5 / 10), example_system (3 / 10)])
             ''20240102_000000'' [] (Fin (4 / 10)) []],
         PlotSystem
           (candidate (example_finder [example_system (5 / 10), example_system (3 / 10)])
             ''20240102_000000'' [] (Fin (4 / 10)) [])])"
  by (simp add: add_system_def is_system_worthy_def py_min_def sort_descending_def
        candidate_def example_finder_def example_system_def default_LyapConfig_def
        default_config_def min_def Let_def)

text \<open>The theorem on that example.\<close>

theorem add_system_preserves_invariant_witness:
  "BestSet_invariant (example_finder [example_system (5 / 10), example_system (3 / 10)]) \<and>
   (\<exists>self' events.
      add_system (example_finder [example_system (5 / 10), example_system (3 / 10)])
        ''20240102_000000'' [] (Fin (4 / 10)) [] = Inr (self', events) \<and>
      BestSet_invariant self' \<and>
      map lyapunov (best_systems self') = [Fin (5 / 10), Fin (4 / 10)])"
proof -
  let ?full = "example_finder [example_system (5 / 10), example_system (3 / 10)]"
  have cap: "1 \<le> max_systems (finder_config ?full)"
    by (simp add: example_finder_def)
  have inv: "BestSet_invariant ?full"
    by (simp add: BestSet_invariant_def example_finder_def example_system_def
          default_LyapConfig_def)
  from add_system_preserves_invariant [OF cap inv, of "''20240102_000000''" "[]" "Fin (4 / 10)" "[]"]
  obtain self' events where
    ret: "add_system ?full ''20240102_000000'' [] (Fin (4 / 10)) [] = Inr (self', events)"
    and inv': "BestSet_invariant self'"
    by blast
  from ret have "map lyapunov (best_systems self') = [Fin (5 / 10), Fin (4 / 10)]"
    unfolding example_add by (auto simp: example_finder_def example_system_def candidate_def)
  with ret inv' have
    "add_system ?full ''20240102_000000'' [] (Fin (4 / 10)) [] = Inr (self', events) \<and>
     BestSet_invariant self' \<and>
     map lyapunov (best_systems self') = [Fin (5 / 10), Fin (4 / 10)]"
    by (intro conjI)
  then have
    "\<exists>self' events.
       add_system ?full ''20240102_000000'' [] (Fin (4 / 10)) [] = Inr (self', events) \<and>
       BestSet_invariant self' \<and>
       map lyapunov (best_systems self') = [Fin (5 / 10), Fin (4 / 10)]"
    by (intro exI)
  with inv show ?thesis by (rule conjI)
qed


section \<open>The estimator\<close>

text \<open>The loop of \<^verbatim>\<open>calculate\<close> over a list of indices within the trajectories.\<close>

lemma upto_map_int: "[int a..int b - 1] = map int [a..<b]"
  by (rule nth_equalityI) (auto simp: nat_diff_distrib')

lemma separation_of_euclidean:
  assumes "length a = length b"
  shows "separation_of a b = euclidean_separation a b"
proof -
  have "map (\<lambda>(r, p). (r - p) ^ 2) (zip a b) = map (\<lambda>k. (a ! k - b ! k) ^ 2) [0..<length a]"
    using assms by (intro nth_equalityI) simp_all
  then show ?thesis
    by (simp add: separation_of_def euclidean_separation_def)
qed

lemma py_index_nat: "i < length xs \<Longrightarrow> py_index xs (int i) = Inr (xs ! i)"
  by (simp add: py_index_def)

lemma calculate_loop_filter:
  assumes dims: "list_all2 (\<lambda>p q. length p = length q) reference_traj perturbed_traj"
    and dist: "0 < calc_lyap_norm_dist calc"
    and range: "\<forall>i \<in> set idx. i < length reference_traj"
  shows "calculate_loop calc reference_traj perturbed_traj (map int idx) (lyap_sum, valid_points) =
           Inr (lyap_sum +
                  sum_list
                    (map (\<lambda>i. ln (euclidean_separation (reference_traj ! i) (perturbed_traj ! i)
                                    / calc_lyap_norm_dist calc))
                       (filter (spec_qualifies calc reference_traj perturbed_traj) idx)),
                valid_points +
                  int (length (filter (spec_qualifies calc reference_traj perturbed_traj) idx)))"
  using range
proof (induction idx arbitrary: lyap_sum valid_points)
  case Nil
  then show ?case by simp
next
  case (Cons i idx)
  from Cons.prems have i: "i < length reference_traj" by simp
  from dims have len: "length perturbed_traj = length reference_traj"
    by (simp add: list_all2_lengthD)
  have same: "length (reference_traj ! i) = length (perturbed_traj ! i)"
    using list_all2_nthD [OF dims i] .
  have sep: "separation_of (reference_traj ! i) (perturbed_traj ! i) =
      euclidean_separation (reference_traj ! i) (perturbed_traj ! i)"
    using same by (rule separation_of_euclidean)
  have rest: "\<forall>j \<in> set idx. j < length reference_traj"
    using Cons.prems by simp
  have cond:
    "(0 < separation_of (reference_traj ! i) (perturbed_traj ! i) \<and>
      separation_of (reference_traj ! i) (perturbed_traj ! i) < calc_extreme_threshold calc) =
     spec_qualifies calc reference_traj perturbed_traj i"
    by (simp add: sep spec_qualifies_def)
  have logr:
    "py_log_ratio (separation_of (reference_traj ! i) (perturbed_traj ! i))
       (calc_lyap_norm_dist calc) =
     Inr (ln (euclidean_separation (reference_traj ! i) (perturbed_traj ! i)
              / calc_lyap_norm_dist calc))"
    if "spec_qualifies calc reference_traj perturbed_traj i"
    using that dist by (simp add: py_log_ratio_def spec_qualifies_def sep not_le)
  show ?case
    using i len
    by (simp add: py_index_nat cond logr Let_def Cons.IH [OF rest] add.assoc)
qed

text \<open>
  Claim C6. For trajectories of equal length whose points agree in dimension index
  by index, and a calculator with a non-negative skip, a positive initial distance and
  a renormalisation interval of at least one, \<^verbatim>\<open>calculate\<close> returns the estimate as
  the specification words it: it starts at \<open>min(transientSkipSteps, length / 4)\<close>,
  accumulates \<open>ln(s\<^sub>i / initialDistance)\<close> for exactly the indices with
  \<open>0 < s\<^sub>i < extremeThreshold\<close>, returns the sentinel when there is none and
  otherwise the sum divided by the count times the renormalisation interval.
\<close>

theorem calculate_follows_specification:
  assumes dims: "list_all2 (\<lambda>p q. length p = length q) reference_traj perturbed_traj"
    and skip: "0 \<le> calc_lyap_skip_steps calc"
    and dist: "0 < calc_lyap_norm_dist calc"
    and renorm: "1 \<le> calc_lyap_renorm_steps calc"
  shows "calculate calc reference_traj perturbed_traj =
           Inr (spec_estimate calc reference_traj perturbed_traj)"
proof -
  let ?n = "length reference_traj"
  let ?valid = "spec_valid_indices calc reference_traj perturbed_traj"
  have quarter: "int ?n div 4 = int (?n div 4)"
    by (simp add: zdiv_int)
  have start: "min (calc_lyap_skip_steps calc) (int ?n div 4) = int (spec_skip calc ?n)"
    unfolding quarter spec_skip_def using skip by linarith
  have range: "\<forall>i \<in> set [spec_skip calc ?n..<?n]. i < ?n"
    by simp
  have loop: "calculate_loop calc reference_traj perturbed_traj
                [int (spec_skip calc ?n)..int ?n - 1] (0, 0) =
              Inr (sum_list
                     (map (\<lambda>i. ln (euclidean_separation (reference_traj ! i) (perturbed_traj ! i)
                                     / calc_lyap_norm_dist calc))
                        ?valid),
                   int (length ?valid))"
    unfolding upto_map_int
    using calculate_loop_filter [OF dims dist range, of 0 0]
    by (simp add: spec_valid_indices_def)
  show ?thesis
  proof (cases "?valid = []")
    case True
    with loop start show ?thesis
      by (simp add: calculate_def spec_estimate_def Let_def)
  next
    case False
    then have "0 < length ?valid" by simp
    with renorm have "int (length ?valid) * calc_lyap_renorm_steps calc \<noteq> 0"
      by simp
    with False loop start show ?thesis
      by (simp add: calculate_def spec_estimate_def Let_def)
  qed
qed


text \<open>
  The estimate of the doubling trajectories under the default configuration: the
  skip is \<open>min(100, 4 / 4) = 1\<close>, the indices one and three qualify, each with
  \<open>ln 2\<close>, and the interval is ten. Identical trajectories have no qualifying index.
\<close>

lemma doubling_estimate:
  "spec_estimate (new_LyapunovCalculator default_LyapConfig)
     doubling_reference doubling_perturbed = Fin (ln 2 / 10)"
  by (simp add: spec_estimate_def spec_valid_indices_def spec_skip_def spec_qualifies_def
        euclidean_separation_def new_LyapunovCalculator_def default_LyapConfig_def
        doubling_reference_def doubling_perturbed_def Let_def)

lemma identical_estimate:
  "spec_estimate (new_LyapunovCalculator default_LyapConfig)
     doubling_reference doubling_reference = NegInf"
  by (simp add: spec_estimate_def spec_valid_indices_def spec_skip_def spec_qualifies_def
        euclidean_separation_def new_LyapunovCalculator_def default_LyapConfig_def
        doubling_reference_def Let_def)

theorem calculate_follows_specification_witness:
  "calculate (new_LyapunovCalculator default_LyapConfig)
     doubling_reference doubling_perturbed = Inr (Fin (ln 2 / 10)) \<and>
   calculate (new_LyapunovCalculator default_LyapConfig)
     doubling_reference doubling_reference = Inr NegInf"
proof -
  let ?calc = "new_LyapunovCalculator default_LyapConfig"
  have dims:
    "list_all2 (\<lambda>p q. length p = length q) doubling_reference doubling_perturbed"
    "list_all2 (\<lambda>p q. length p = length q) doubling_reference doubling_reference"
    by (simp_all add: doubling_reference_def doubling_perturbed_def)
  have cfg: "0 \<le> calc_lyap_skip_steps ?calc" "0 < calc_lyap_norm_dist ?calc"
    "1 \<le> calc_lyap_renorm_steps ?calc"
    by (simp_all add: new_LyapunovCalculator_def default_LyapConfig_def)
  from calculate_follows_specification [OF dims(1) cfg]
       calculate_follows_specification [OF dims(2) cfg]
  show ?thesis by (simp only: doubling_estimate identical_estimate)
qed


end
